theory Spec2Isabelle
  imports Complex_Main
begin

section \<open>Stock dashboard backend: configuration, ingestion and indicators\<close>

text \<open>
  A shallow embedding of \<^verbatim>\<open>backend/config.py\<close> and \<^verbatim>\<open>backend/app.py\<close>.
  A float is a real number or NaN: rounding and the infinities are not modelled.
  Timestamps are integers. Strings are byte lists, so \<open>upper\<close> covers the ASCII letters
  only. Of the table, its columns and unique constraints are modelled, not the column types.
\<close>

subsection \<open>config.py\<close>

text \<open>\<^verbatim>\<open>os.getenv(name, default)\<close> over the process environment.\<close>

definition getenv :: "(string \<rightharpoonup> string) \<Rightarrow> string \<Rightarrow> string \<Rightarrow> string" where
  "getenv environ name dflt = (case environ name of None \<Rightarrow> dflt | Some v \<Rightarrow> v)"

record Config =
  DB_HOST :: string
  DB_PORT :: int
  DB_USER :: string
  DB_PASSWORD :: string
  DB_NAME :: string
  LOG_LEVEL :: string
  PORT :: int
  ENV :: string

text \<open>
  The class attributes, read once from the environment. Python's \<^verbatim>\<open>int()\<close> is a
  parameter: \<open>None\<close> is its ValueError, which aborts the import of the module.
\<close>

definition Config_of_environ ::
  "(string \<Rightarrow> int option) \<Rightarrow> (string \<rightharpoonup> string) \<Rightarrow> Config option" where
  "Config_of_environ py_int environ =
     (case py_int (getenv environ ''DB_PORT'' ''5432'') of
        None \<Rightarrow> None
      | Some db_port \<Rightarrow>
          (case py_int (getenv environ ''PORT'' ''8000'') of
             None \<Rightarrow> None
           | Some port \<Rightarrow>
               Some \<lparr> DB_HOST = getenv environ ''DB_HOST'' ''postgres'',
                      DB_PORT = db_port,
                      DB_USER = getenv environ ''DB_USER'' ''postgres'',
                      DB_PASSWORD = getenv environ ''DB_PASSWORD'' ''postgres'',
                      DB_NAME = getenv environ ''DB_NAME'' ''stocks'',
                      LOG_LEVEL = getenv environ ''LOG_LEVEL'' ''INFO'',
                      PORT = port,
                      ENV = getenv environ ''ENV'' ''development'' \<rparr>))"

datatype error = ValueError string

text \<open>\<^verbatim>\<open>Config.validate\<close>: \<open>Inl\<close> is the raised error, \<open>Inr ()\<close> the normal return.\<close>

definition validate :: "Config \<Rightarrow> error + unit" where
  "validate cls =
     (if ENV cls \<notin> {''development'', ''staging'', ''production''}
      then Inl (ValueError (''Invalid ENV: '' @ ENV cls))
      else if DB_PASSWORD cls = ''password'' \<and> ENV cls = ''production''
      then Inl (ValueError ''Default DB_PASSWORD used in production!'')
      else Inr ())"

subsection \<open>The store\<close>

type_synonym timestamp = int

text \<open>
  A float as Python and PostgreSQL hold it: \<open>Some x\<close> is the number \<open>x\<close>, \<open>None\<close> is NaN
  (and, read back from a nullable column, NULL, which pandas turns into NaN).
\<close>

type_synonym pyfloat = "real option"

record row =
  time :: timestamp
  ticker :: string
  open_price :: pyfloat
  high :: pyfloat
  low :: pyfloat
  close_price :: pyfloat
  volume :: int

datatype column = ColTime | ColTicker | ColOpen | ColHigh | ColLow | ColClose | ColVolume

fun same_on :: "column \<Rightarrow> row \<Rightarrow> row \<Rightarrow> bool" where
  "same_on ColTime r s = (time r = time s)"
| "same_on ColTicker r s = (ticker r = ticker s)"
| "same_on ColOpen r s = (open_price r = open_price s)"
| "same_on ColHigh r s = (high r = high s)"
| "same_on ColLow r s = (low r = low s)"
| "same_on ColClose r s = (close_price r = close_price s)"
| "same_on ColVolume r s = (volume r = volume s)"

text \<open>A new row conflicts with a stored one when they agree on every column of some
  unique constraint (a constraint is the list of its columns).\<close>

definition conflicts :: "column list list \<Rightarrow> row \<Rightarrow> row \<Rightarrow> bool" where
  "conflicts uniques new old = list_ex (\<lambda>cols. list_all (\<lambda>c. same_on c new old) cols) uniques"

text \<open>\<^verbatim>\<open>INSERT ... ON CONFLICT DO NOTHING\<close> on a table with the given unique constraints.\<close>

definition insert_on_conflict_do_nothing :: "column list list \<Rightarrow> row \<Rightarrow> row list \<Rightarrow> row list" where
  "insert_on_conflict_do_nothing uniques new tbl =
     (if list_ex (conflicts uniques new) tbl then tbl else tbl @ [new])"

text \<open>
  The database as a request meets it: whether \<^verbatim>\<open>get_db_connection\<close> gets a connection,
  the unique constraints that the table \<open>stock_prices\<close> carries, and its committed rows.
  The constraints are part of the database and not of this code: \<^verbatim>\<open>init_db\<close> (below)
  never commits, so the table a request works on was made outside this code, with whatever
  constraints it was given. On a database without the table every statement on it raises,
  which is a fault of the store (see \<open>env\<close>).
\<close>

record database =
  connectable :: bool
  unique_constraints :: "column list list"
  stock_prices :: "row list"

subsection \<open>init_db\<close>

text \<open>
  Lines 44 to 91. The four statements run on one cursor, in one transaction, and
  \<^verbatim>\<open>conn.commit()\<close> stands after the last one. A statement raises when the transaction
  is already aborted or when PostgreSQL refuses it (\<open>accepts\<close>, the database's answer to
  each statement), and a raise aborts the transaction. The third statement stands in a
  \<^verbatim>\<open>try\<close> of its own whose bare \<^verbatim>\<open>except\<close> only logs; a raise of any other statement
  leaves through the outer \<^verbatim>\<open>except\<close>, past the commit. The result is the list of the
  statements committed. The first component of \<open>execute\<close> tells whether the statement
  raised.
\<close>

datatype statement = CreateExtension | CreateTable | CreateHypertable | CreateIndex

record transaction =
  aborted :: bool
  executed :: "statement list"

definition execute :: "(statement \<Rightarrow> bool) \<Rightarrow> statement \<Rightarrow> transaction \<Rightarrow> bool \<times> transaction" where
  "execute accepts s t =
     (if aborted t \<or> \<not> accepts s then (True, t\<lparr>aborted := True\<rparr>)
      else (False, t\<lparr>executed := executed t @ [s]\<rparr>))"

definition init_db :: "(statement \<Rightarrow> bool) \<Rightarrow> database \<Rightarrow> statement list" where
  "init_db accepts db =
     (if \<not> connectable db then []
      else
        (let (raised1, t1) = execute accepts CreateExtension \<lparr>aborted = False, executed = []\<rparr>
         in if raised1 then []
            else
              (let (raised2, t2) = execute accepts CreateTable t1
               in if raised2 then []
                  else
                    (let (raised3, t3) = execute accepts CreateHypertable t2;
                         (raised4, t4) = execute accepts CreateIndex t3
                     in if raised4 then [] else executed t4))))"

subsection \<open>Responses\<close>

record indicator_record =
  i_time :: timestamp
  i_ticker :: string
  i_close :: pyfloat
  i_volume :: int
  sma_20 :: "real option"
  sma_50 :: "real option"
  sma_100 :: "real option"
  bb_mid :: "real option"
  bb_std :: "real option"
  bb_upper :: "real option"
  bb_lower :: "real option"

datatype body =
    ErrorBody string
  | StatusBody string
  | FetchBody string nat string
  | IndicatorsBody string "indicator_record list"

text \<open>
  What a view function returns: the body, and the status code when the \<^verbatim>\<open>return\<close>
  statement gives one. Flask answers with 200 when it gives none.
\<close>

type_synonym response = "body \<times> nat option"

definition http_status :: "response \<Rightarrow> nat" where
  "http_status r = (case snd r of None \<Rightarrow> 200 | Some code \<Rightarrow> code)"

definition upper_char :: "char \<Rightarrow> char" where
  "upper_char c =
     (case map_of (zip ''abcdefghijklmnopqrstuvwxyz'' ''ABCDEFGHIJKLMNOPQRSTUVWXYZ'') c of
        None \<Rightarrow> c | Some u \<Rightarrow> u)"

definition upper :: "string \<Rightarrow> string" where
  "upper s = map upper_char s"

subsection \<open>health and ready\<close>

definition health :: response where
  "health = (StatusBody ''healthy'', Some 200)"

definition ready :: "database \<Rightarrow> response" where
  "ready db =
     (if connectable db then (StatusBody ''ready'', Some 200)
      else (StatusBody ''not ready'', None))"

subsection \<open>fetch_stock\<close>

text \<open>One row of the source's data frame: its index entry and the five columns read.
  \<^verbatim>\<open>float(...)\<close> of a NaN entry is NaN.\<close>

record src_bar =
  idx :: timestamp
  Open :: pyfloat
  High :: pyfloat
  Low :: pyfloat
  Close :: pyfloat
  Volume :: int

datatype source_result = SourceError string | Bars "src_bar list"

text \<open>
  What one request depends on besides the database: the answer of
  \<^verbatim>\<open>yf.Ticker(ticker).history(period="1y")\<close>, how a timestamp's date prints, and the faults
  of the store: \<open>execute_fault = Some (k, msg)\<close> makes the \<open>k\<close>-th \<^verbatim>\<open>cur.execute\<close> of the
  insertion loop (counted from 0) raise an exception that prints as \<open>msg\<close>, and
  \<open>commit_fault\<close>, \<open>query_fault\<close> do the same for \<^verbatim>\<open>conn.commit()\<close> and for the
  \<^verbatim>\<open>SELECT\<close> of the indicators. A database without the table \<open>stock_prices\<close> is one
  where \<open>execute_fault = Some (0, msg)\<close> and \<open>query_fault = Some msg\<close>.
\<close>

record env =
  history :: "string \<Rightarrow> source_result"
  date_str :: "timestamp \<Rightarrow> string"
  execute_fault :: "(nat \<times> string) option"
  commit_fault :: "string option"
  query_fault :: "string option"

definition row_of :: "string \<Rightarrow> src_bar \<Rightarrow> row" where
  "row_of tick b =
     \<lparr> time = idx b, ticker = upper tick, open_price = Open b, high = High b,
       low = Low b, close_price = Close b, volume = Volume b \<rparr>"

text \<open>
  The insertion loop, inside the connection's transaction: \<open>tbl\<close> is the table as the
  transaction sees it, \<open>uniques\<close> its unique constraints, \<open>i\<close> counts the statements
  executed. \<open>Inl msg\<close> is the exception that leaves the loop.
\<close>

fun insert_loop ::
  "column list list \<Rightarrow> (nat \<times> string) option \<Rightarrow> string \<Rightarrow> nat \<Rightarrow> row list \<Rightarrow> src_bar list
     \<Rightarrow> string + row list" where
  "insert_loop uniques fault tick i tbl [] = Inr tbl"
| "insert_loop uniques fault tick i tbl (b # bs) =
     (case fault of
        Some (k, msg) \<Rightarrow>
          if k = i then Inl msg
          else insert_loop uniques fault tick (Suc i)
                 (insert_on_conflict_do_nothing uniques (row_of tick b) tbl) bs
      | None \<Rightarrow>
          insert_loop uniques fault tick (Suc i)
            (insert_on_conflict_do_nothing uniques (row_of tick b) tbl) bs)"

text \<open>The table the loop leaves when no statement raises.\<close>

definition insert_all :: "column list list \<Rightarrow> string \<Rightarrow> row list \<Rightarrow> src_bar list \<Rightarrow> row list" where
  "insert_all uniques tick tbl bs =
     foldl (\<lambda>t b. insert_on_conflict_do_nothing uniques (row_of tick b) t) tbl bs"

text \<open>
  The view returns its response; the second component is the database afterwards. Only
  \<^verbatim>\<open>conn.commit()\<close> makes the transaction's rows part of it: an exception before or in
  the commit leaves the view through the \<^verbatim>\<open>except\<close> branch and the transaction is
  dropped with the connection.
\<close>

definition fetch_stock :: "env \<Rightarrow> string \<Rightarrow> database \<Rightarrow> response \<times> database" where
  "fetch_stock e tick db =
     (case history e tick of
        SourceError msg \<Rightarrow> ((ErrorBody msg, Some 500), db)
      | Bars df \<Rightarrow>
          if df = [] then ((ErrorBody (''No data found for '' @ tick), Some 404), db)
          else if \<not> connectable db then ((ErrorBody ''Database connection failed'', Some 500), db)
          else
            (case insert_loop (unique_constraints db) (execute_fault e) tick 0
                    (stock_prices db) df of
               Inl msg \<Rightarrow> ((ErrorBody msg, Some 500), db)
             | Inr tbl \<Rightarrow>
                 (case commit_fault e of
                    Some msg \<Rightarrow> ((ErrorBody msg, Some 500), db)
                  | None \<Rightarrow>
                      ((FetchBody (upper tick) (length df)
                          (date_str e (idx (hd df)) @ '' to '' @ date_str e (idx (last df))),
                        None),
                       db\<lparr>stock_prices := tbl\<rparr>))))"

subsection \<open>get_indicators\<close>

text \<open>
  \<^verbatim>\<open>Series.rolling(window=w)\<close>: the window ending at position \<open>i\<close> holds the last \<open>w\<close>
  values up to \<open>i\<close>, fewer at the start of the series. Its observations are the values
  that are not NaN. With fewer than \<open>w\<close> observations (\<^verbatim>\<open>min_periods\<close> is the window size)
  the result is NaN (\<open>None\<close>); \<^verbatim>\<open>std()\<close> has \<^verbatim>\<open>ddof=1\<close> and needs more than one
  observation.
\<close>

definition rolling_window :: "nat \<Rightarrow> pyfloat list \<Rightarrow> nat \<Rightarrow> pyfloat list" where
  "rolling_window w xs i = drop (Suc i - w) (take (Suc i) xs)"

fun observations :: "pyfloat list \<Rightarrow> real list" where
  "observations [] = []"
| "observations (None # xs) = observations xs"
| "observations (Some x # xs) = x # observations xs"

definition mean :: "real list \<Rightarrow> real" where
  "mean xs = sum_list xs / real (length xs)"

definition rolling_mean :: "nat \<Rightarrow> pyfloat list \<Rightarrow> nat \<Rightarrow> pyfloat" where
  "rolling_mean w xs i =
     (let obs = observations (rolling_window w xs i)
      in if length obs < w then None else Some (mean obs))"

definition std :: "nat \<Rightarrow> real list \<Rightarrow> real" where
  "std ddof xs =
     sqrt (sum_list (map (\<lambda>x. (x - mean xs)\<^sup>2) xs) / (real (length xs) - real ddof))"

definition rolling_std :: "nat \<Rightarrow> pyfloat list \<Rightarrow> nat \<Rightarrow> pyfloat" where
  "rolling_std w xs i =
     (let obs = observations (rolling_window w xs i)
      in if length obs < w \<or> length obs \<le> 1 then None else Some (std 1 obs))"

text \<open>Arithmetic on columns: NaN stays NaN.\<close>

definition col_times :: "pyfloat \<Rightarrow> real \<Rightarrow> pyfloat" where
  "col_times a k = (case a of None \<Rightarrow> None | Some x \<Rightarrow> Some (x * k))"

definition col_plus :: "pyfloat \<Rightarrow> pyfloat \<Rightarrow> pyfloat" where
  "col_plus a b = (case a of None \<Rightarrow> None | Some x \<Rightarrow> (case b of None \<Rightarrow> None | Some y \<Rightarrow> Some (x + y)))"

definition col_minus :: "pyfloat \<Rightarrow> pyfloat \<Rightarrow> pyfloat" where
  "col_minus a b = (case a of None \<Rightarrow> None | Some x \<Rightarrow> (case b of None \<Rightarrow> None | Some y \<Rightarrow> Some (x - y)))"

text \<open>The record of position \<open>i\<close> of the frame, after the indicator columns are added.\<close>

definition indicator_at :: "row list \<Rightarrow> nat \<Rightarrow> indicator_record" where
  "indicator_at df i =
     (let closes = map close_price df;
          mid = rolling_mean 20 closes i;
          sd = rolling_std 20 closes i
      in \<lparr> i_time = time (df ! i), i_ticker = ticker (df ! i),
           i_close = close_price (df ! i), i_volume = volume (df ! i),
           sma_20 = rolling_mean 20 closes i,
           sma_50 = rolling_mean 50 closes i,
           sma_100 = rolling_mean 100 closes i,
           bb_mid = mid, bb_std = sd,
           bb_upper = col_plus mid (col_times sd 2),
           bb_lower = col_minus mid (col_times sd 2) \<rparr>)"

text \<open>Lines 184 to 200: the frame sorted by time, the indicators, all records.\<close>

definition compute :: "row list \<Rightarrow> indicator_record list" where
  "compute rows = (let df = sort_key time rows in map (indicator_at df) [0..<length df])"

text \<open>\<^verbatim>\<open>SELECT ... WHERE ticker = %s ORDER BY time ASC\<close>.\<close>

definition select_by_ticker :: "string \<Rightarrow> row list \<Rightarrow> row list" where
  "select_by_ticker t tbl = sort_key time (filter (\<lambda>r. ticker r = t) tbl)"

definition get_indicators :: "env \<Rightarrow> string \<Rightarrow> database \<Rightarrow> response" where
  "get_indicators e tick db =
     (if \<not> connectable db then (ErrorBody ''Database connection failed'', Some 500)
      else
        (case query_fault e of
           Some msg \<Rightarrow> (ErrorBody msg, Some 500)
         | None \<Rightarrow>
             (let rows = select_by_ticker (upper tick) (stock_prices db)
              in if rows = [] then (ErrorBody (''No data for '' @ tick), None)
                 else (IndicatorsBody (upper tick) (compute rows), None))))"

subsection \<open>Specification-side notions\<close>


text \<open>The stored rows of a ticker, as the store keys them (upper case).\<close>

definition stored_bars :: "string \<Rightarrow> database \<Rightarrow> row list" where
  "stored_bars tick db = filter (\<lambda>r. ticker r = upper tick) (stock_prices db)"




subsection \<open>Example inputs\<close>

text \<open>\<^verbatim>\<open>int()\<close> on the two default port strings.\<close>

definition int_of_port :: "string \<Rightarrow> int option" where
  "int_of_port s =
     (if s = ''5432'' then Some 5432 else if s = ''8000'' then Some 8000 else None)"

definition bar_a :: src_bar where
  "bar_a = \<lparr> idx = 1, Open = Some 10, High = Some 12, Low = Some 9, Close = Some 11,
             Volume = 1000 \<rparr>"

definition bar_b :: src_bar where
  "bar_b = \<lparr> idx = 2, Open = Some 11, High = Some 13, Low = Some 10, Close = Some 12,
             Volume = 2000 \<rparr>"

definition day :: "timestamp \<Rightarrow> string" where
  "day t = (if t = 1 then ''2024-01-02'' else ''2024-01-03'')"

definition source_of :: "src_bar list \<Rightarrow> env" where
  "source_of bars =
     \<lparr> history = (\<lambda>t. Bars bars), date_str = day,
       execute_fault = None, commit_fault = None, query_fault = None \<rparr>"

text \<open>Databases whose table exists: with no unique constraint, and with the one on
  \<open>(ticker, time)\<close>.\<close>

definition db_of :: "row list \<Rightarrow> database" where
  "db_of rows = \<lparr> connectable = True, unique_constraints = [], stock_prices = rows \<rparr>"

definition keyed_db_of :: "row list \<Rightarrow> database" where
  "keyed_db_of rows =
     \<lparr> connectable = True, unique_constraints = [[ColTicker, ColTime]], stock_prices = rows \<rparr>"

definition empty_db :: database where
  "empty_db = db_of []"

definition row_a :: row where
  "row_a = \<lparr> time = 1, ticker = ''AAPL'', open_price = Some 10, high = Some 12, low = Some 9,
             close_price = Some 11, volume = 1000 \<rparr>"

definition row_b :: row where
  "row_b = \<lparr> time = 2, ticker = ''AAPL'', open_price = Some 11, high = Some 13, low = Some 10,
             close_price = Some 12, volume = 2000 \<rparr>"

text \<open>A source of two bars whose second insert fails, and one whose first insert fails, as
  every insert does on a database without the table.\<close>

definition failing_store :: env where
  "failing_store = (source_of [bar_a, bar_b])\<lparr>execute_fault := Some (1, ''connection lost'')\<rparr>"


text \<open>PostgreSQL's answers to the statements of \<^verbatim>\<open>init_db\<close> on a database without the
  table: the \<^verbatim>\<open>CREATE TABLE\<close> statement names the type \<^verbatim>\<open>TIMESTAMPZ\<close>, which
  PostgreSQL does not have, and line 73 lacks the comma between two arguments, a syntax
  error. Both are refused.\<close>

definition postgres_accepts :: "statement \<Rightarrow> bool" where
  "postgres_accepts s = (s \<noteq> CreateTable \<and> s \<noteq> CreateHypertable)"




section \<open>Properties\<close>

subsection \<open>Helper facts\<close>

lemma upper_aapl: "upper ''aapl'' = ''AAPL''"
  by (simp add: upper_def upper_char_def)


lemma row_of_bar_b: "row_of ''aapl'' bar_b = row_b"
  by (simp add: row_of_def bar_b_def row_b_def upper_aapl)

lemma idx_bars: "idx bar_a = 1" "idx bar_b = 2"
  by (simp_all add: bar_a_def bar_b_def)

lemma insert_all_Nil: "insert_all uniques tick tbl [] = tbl"
  by (simp add: insert_all_def)

lemma insert_all_Cons:
  "insert_all uniques tick tbl (b # bs)
     = insert_all uniques tick (insert_on_conflict_do_nothing uniques (row_of tick b) tbl) bs"
  by (simp add: insert_all_def)

lemma insert_without_constraint:
  "insert_on_conflict_do_nothing [] r tbl = tbl @ [r]"
  by (simp add: insert_on_conflict_do_nothing_def conflicts_def list_ex_iff)


lemma insert_loop_no_fault:
  "insert_loop uniques None tick i tbl bs = Inr (insert_all uniques tick tbl bs)"
  by (induction bs arbitrary: i tbl) (simp_all add: insert_all_Nil insert_all_Cons)

lemma insert_loop_fault:
  "i \<le> k \<Longrightarrow> k < i + length bs \<Longrightarrow>
     insert_loop uniques (Some (k, msg)) tick i tbl bs = Inl msg"
proof (induction bs arbitrary: i tbl)
  case Nil
  then show ?case by simp
next
  case (Cons b bs)
  show ?case
  proof (cases "k = i")
    case True
    then show ?thesis by simp
  next
    case False
    with Cons.prems have "Suc i \<le> k" and "k < Suc i + length bs" by simp_all
    then have "insert_loop uniques (Some (k, msg)) tick (Suc i)
                 (insert_on_conflict_do_nothing uniques (row_of tick b) tbl) bs = Inl msg"
      by (rule Cons.IH)
    with False show ?thesis by simp
  qed
qed


lemma insert_loop_early_fault:
  "k < i \<Longrightarrow>
     insert_loop uniques (Some (k, msg)) tick i tbl bs = Inr (insert_all uniques tick tbl bs)"
  by (induction bs arbitrary: i tbl) (simp_all add: insert_all_Nil insert_all_Cons)










text \<open>The statements of \<^verbatim>\<open>init_db\<close> are never committed when the hypertable statement
  is refused, whatever the answers to the others.\<close>

lemma init_db_commits_nothing:
  "\<not> accepts CreateHypertable \<Longrightarrow> init_db accepts db = []"
  by (simp add: init_db_def execute_def Let_def split: prod.splits)

lemma init_db_postgres: "init_db postgres_accepts db = []"
  by (rule init_db_commits_nothing) (simp add: postgres_accepts_def)

subsection \<open>Configuration\<close>

text \<open>
  C3. In production with the database password left at its default, validation should
  raise. The default of \<open>DB_PASSWORD\<close> is \<open>postgres\<close>, the value validation compares with
  is \<open>password\<close>: with only \<open>ENV=production\<close> in the environment the configuration has
  the default password and validation returns normally.
\<close>

theorem validate_accepts_default_password_in_production:
  "\<exists>cfg. Config_of_environ int_of_port [''ENV'' \<mapsto> ''production''] = Some cfg
     \<and> DB_PASSWORD cfg = ''postgres''
     \<and> ENV cfg = ''production''
     \<and> validate cfg = Inr ()"
  by (simp add: Config_of_environ_def int_of_port_def getenv_def validate_def)

subsection \<open>Readiness\<close>

text \<open>
  C10. The ready endpoint answers with status 200 in every state of the database: the
  branch for an unreachable database returns the "not ready" body with no status code.
\<close>

theorem ready_always_200:
  "http_status (ready db) = 200
   \<and> ready (db\<lparr>connectable := False\<rparr>) = (StatusBody ''not ready'', None)"
  by (simp add: ready_def http_status_def)

subsection \<open>Ingestion\<close>

lemma fetch_stock_success:
  assumes "history e tick = Bars df" and "df \<noteq> []" and "connectable db"
    and "execute_fault e = None" and "commit_fault e = None"
  shows "fetch_stock e tick db =
           ((FetchBody (upper tick) (length df)
               (date_str e (idx (hd df)) @ '' to '' @ date_str e (idx (last df))), None),
            db\<lparr>stock_prices := insert_all (unique_constraints db) tick (stock_prices db) df\<rparr>)"
  using assms by (simp add: fetch_stock_def insert_loop_no_fault)






text \<open>
  C2, as stated: after a failure partway through the batch the bars before the failing
  one remain written. With two bars and a failure at the second insert the first bar is
  not in the store afterwards; the store is still empty and the body holds only the
  message.
\<close>

theorem fetch_stock_partial_failure_counterexample:
  "row_of ''aapl'' bar_a \<notin> set (stock_prices (snd (fetch_stock failing_store ''aapl'' empty_db)))
   \<and> fetch_stock failing_store ''aapl'' empty_db
       = ((ErrorBody ''connection lost'', Some 500), empty_db)"
  by (simp add: fetch_stock_def failing_store_def source_of_def empty_db_def db_of_def
      insert_without_constraint)

text \<open>
  C2, amended. When an insert of the batch fails (the \<open>k\<close>-th of \<open>n\<close> bars, \<open>k < n\<close>), the
  transaction is never committed: the store is left exactly as it was before the call,
  and the response is status 500 with the error message as its only content.
\<close>

theorem fetch_stock_failure_leaves_store:
  assumes "history e tick = Bars df" and "connectable db"
    and "execute_fault e = Some (k, msg)" and "k < length df"
  shows "fetch_stock e tick db = ((ErrorBody msg, Some 500), db)"
proof -
  from assms(4) have "df \<noteq> []" by auto
  moreover have "insert_loop (unique_constraints db) (Some (k, msg)) tick 0 (stock_prices db) df = Inl msg"
    using assms(4) by (simp add: insert_loop_fault)
  ultimately show ?thesis
    using assms(1-3) by (simp add: fetch_stock_def)
qed

theorem fetch_stock_failure_leaves_store_witness:
  "history failing_store ''aapl'' = Bars [bar_a, bar_b] \<and> connectable empty_db
   \<and> execute_fault failing_store = Some (1, ''connection lost'')
   \<and> (1::nat) < length [bar_a, bar_b]
   \<and> fetch_stock failing_store ''aapl'' empty_db
       = ((ErrorBody ''connection lost'', Some 500), empty_db)"
  using fetch_stock_failure_leaves_store
          [of failing_store "''aapl''" "[bar_a, bar_b]" empty_db 1 "''connection lost''"]
  by (simp add: failing_store_def source_of_def empty_db_def db_of_def)

text \<open>
  C6. When the bar source returns no bars, the fetch answers with status 404 and the
  "No data found" error, and the store is unchanged.
\<close>

theorem fetch_stock_no_data:
  assumes "history e tick = Bars []"
  shows "fetch_stock e tick db = ((ErrorBody (''No data found for '' @ tick), Some 404), db)
         \<and> http_status (fst (fetch_stock e tick db)) = 404
         \<and> snd (fetch_stock e tick db) = db"
  using assms by (simp add: fetch_stock_def http_status_def)

theorem fetch_stock_no_data_witness:
  "history (source_of []) ''NOSUCHTICKER'' = Bars []
   \<and> fetch_stock (source_of []) ''NOSUCHTICKER'' (db_of [row_a])
       = ((ErrorBody ''No data found for NOSUCHTICKER'', Some 404),
          (db_of [row_a]))"
  using fetch_stock_no_data
          [of "source_of []" "''NOSUCHTICKER''" "(db_of [row_a])"]
  by (simp add: source_of_def)

text \<open>
  C8. A successful ingestion (a response that carries the import summary) reports as
  \<open>rows_imported\<close> the number of bars the source returned, whatever the store held
  before, and as \<open>date_range\<close> the dates of the first and the last fetched bar.
\<close>

theorem fetch_stock_reports_source_count:
  assumes "fst (fetch_stock e tick db) = (FetchBody t n dr, st)"
  shows "\<exists>df. history e tick = Bars df \<and> df \<noteq> [] \<and> t = upper tick \<and> n = length df
           \<and> dr = date_str e (idx (hd df)) @ '' to '' @ date_str e (idx (last df))
           \<and> http_status (fst (fetch_stock e tick db)) = 200"
  using assms
  by (auto simp: fetch_stock_def http_status_def
      split: source_result.splits if_splits sum.splits option.splits)

theorem fetch_stock_reports_source_count_witness:
  "fst (fetch_stock (source_of [bar_a, bar_b]) ''aapl''
          (keyed_db_of [row_a, row_b]))
     = (FetchBody ''AAPL'' 2 ''2024-01-02 to 2024-01-03'', None)
   \<and> history (source_of [bar_a, bar_b]) ''aapl'' = Bars [bar_a, bar_b]
   \<and> (2::nat) = length [bar_a, bar_b]"
proof -
  have run: "fst (fetch_stock (source_of [bar_a, bar_b]) ''aapl''
          (keyed_db_of [row_a, row_b]))
     = (FetchBody ''AAPL'' 2 ''2024-01-02 to 2024-01-03'', None)"
    by (simp add: fetch_stock_success [where df = "[bar_a, bar_b]"] source_of_def keyed_db_of_def
        upper_aapl idx_bars day_def)
  from fetch_stock_reports_source_count [OF run] run
  show ?thesis by (simp add: source_of_def)
qed

subsection \<open>Helper facts on the indicators\<close>























lemma length_select:
  "length (select_by_ticker (upper tick) (stock_prices db)) = length (stored_bars tick db)"
  by (simp add: select_by_ticker_def stored_bars_def)


















subsection \<open>Indicators\<close>






text \<open>
  C7. For a ticker with no stored bars the indicators operation returns the "No data"
  error body with no status code, which the client sees as status 200 and not 404; the
  fetch operation answers the empty source with 404.
\<close>

theorem get_indicators_no_data:
  assumes "connectable db" and "query_fault e = None" and "stored_bars tick db = []"
  shows "get_indicators e tick db = (ErrorBody (''No data for '' @ tick), None)
       \<and> http_status (get_indicators e tick db) = 200
       \<and> http_status (get_indicators e tick db) \<noteq> 404
       \<and> (history e tick = Bars [] \<longrightarrow> http_status (fst (fetch_stock e tick db)) = 404)"
proof -
  from assms(3) have "select_by_ticker (upper tick) (stock_prices db) = []"
    using length_select [of tick db] by simp
  with assms(1,2) have "get_indicators e tick db = (ErrorBody (''No data for '' @ tick), None)"
    by (simp add: get_indicators_def)
  then show ?thesis
    by (simp add: http_status_def fetch_stock_def)
qed

theorem get_indicators_no_data_witness:
  "connectable (db_of [row_a]) \<and> query_fault (source_of []) = None
   \<and> stored_bars ''msft'' (db_of [row_a]) = []
   \<and> history (source_of []) ''msft'' = Bars []
   \<and> get_indicators (source_of []) ''msft'' (db_of [row_a])
       = (ErrorBody ''No data for msft'', None)
   \<and> http_status (get_indicators (source_of []) ''msft'' (db_of [row_a])) = 200
   \<and> http_status (fst (fetch_stock (source_of []) ''msft'' (db_of [row_a]))) = 404"
proof -
  have "upper ''msft'' = ''MSFT''"
    by (simp add: upper_def upper_char_def)
  then have none: "stored_bars ''msft'' (db_of [row_a]) = []"
    by (simp add: stored_bars_def db_of_def row_a_def)
  have c: "connectable (db_of [row_a])" and q: "query_fault (source_of []) = None"
    by (simp_all add: db_of_def source_of_def)
  have h: "history (source_of []) ''msft'' = Bars []"
    by (simp add: source_of_def)
  from get_indicators_no_data [OF c q none] h
  have "get_indicators (source_of []) ''msft'' (db_of [row_a])
          = (ErrorBody (''No data for '' @ ''msft''), None)"
    and "http_status (get_indicators (source_of []) ''msft'' (db_of [row_a])) = 200"
    and "http_status (fst (fetch_stock (source_of []) ''msft'' (db_of [row_a]))) = 404"
    by blast+
  with c q none h show ?thesis
    by simp
qed




end
